theory Spec2Isabelle
  imports Main "HOL-Library.Log_Nat" "HOL-Library.Multiset"
begin

section \<open>Python values used by \<open>final.py\<close>\<close>

subsection \<open>Floats\<close>

text \<open>
  A finite Python float is the rational number it denotes. Every float operation computes
  the exact rational result and rounds it to the nearest number with a 53-bit significand,
  ties to even (\<open>rnd64\<close>). The exponent range is not bounded, so overflow to infinity
  and subnormal numbers are outside the model; all values the program draws or computes at
  seed time are far inside the normal range.
\<close>

type_synonym pyfloat = rat

text \<open>Round half to even, to an integer.\<close>

definition rhe :: "rat \<Rightarrow> int" where
  "rhe x = (let f = \<lfloor>x\<rfloor>; d = x - of_int f
            in if d < 1/2 then f else if 1/2 < d then f + 1
               else if even f then f else f + 1)"

text \<open>The binary exponent of a positive rational: \<open>2 powi expo x \<le> x < 2 powi (expo x + 1)\<close>.\<close>

definition expo :: "rat \<Rightarrow> int" where
  "expo x = (if 1 \<le> x then bitlen \<lfloor>x\<rfloor> - 1 else - bitlen (\<lceil>1 / x\<rceil> - 1))"

definition rnd64 :: "rat \<Rightarrow> pyfloat" where
  "rnd64 x = (if x = 0 then 0
     else let u = 2 powi (expo \<bar>x\<bar> - 52) in of_int (rhe (x / u)) * u)"

text \<open>
  A decimal literal of the source that is not a binary fraction (\<open>40.7\<close>, \<open>2.8\<close>)
  denotes the nearest float. Literals that are binary fractions (\<open>1.5\<close>, \<open>3.0\<close>,
  \<open>3.5\<close>) denote themselves and are written as such.
\<close>

definition lit :: "rat \<Rightarrow> pyfloat" where
  "lit q = rnd64 q"

definition fadd :: "pyfloat \<Rightarrow> pyfloat \<Rightarrow> pyfloat" where
  "fadd a b = rnd64 (a + b)"

definition fsub :: "pyfloat \<Rightarrow> pyfloat \<Rightarrow> pyfloat" where
  "fsub a b = rnd64 (a - b)"

definition fmul :: "pyfloat \<Rightarrow> pyfloat \<Rightarrow> pyfloat" where
  "fmul a b = rnd64 (a * b)"

datatype py_error = ZeroDivisionError | ServerSelectionTimeoutError

text \<open>\<open>a / b\<close> on floats (an \<open>int\<close> operand is converted first).\<close>

definition truediv :: "pyfloat \<Rightarrow> pyfloat \<Rightarrow> py_error + pyfloat" where
  "truediv a b = (if b = 0 then Inl ZeroDivisionError else Inr (rnd64 (a / b)))"

text \<open>
  \<open>round(x, ndigits)\<close> on a float: the exact value of \<open>x\<close> is rounded to
  \<open>ndigits\<close> decimals, ties to even, and the decimal is converted to the nearest float.
\<close>

definition py_round :: "pyfloat \<Rightarrow> nat \<Rightarrow> pyfloat" where
  "py_round x ndigits = rnd64 (of_int (rhe (x * 10 ^ ndigits)) / 10 ^ ndigits)"

text \<open>
  The builtin \<open>sum\<close> of a list of floats: addition from the left, starting at \<open>0\<close>.
  This is the builtin up to Python 3.11; from 3.12 on it carries a compensation term, and
  the last bits of a sum of three or more floats can differ.
\<close>

definition py_sum :: "pyfloat list \<Rightarrow> pyfloat" where
  "py_sum xs = foldl fadd 0 xs"

subsection \<open>Strings\<close>

definition digit :: "nat \<Rightarrow> char" where
  "digit n = char_of (48 + n)"

function str_nat :: "nat \<Rightarrow> string" where
  "str_nat n = (if n < 10 then [digit n] else str_nat (n div 10) @ [digit (n mod 10)])"
  by pat_completeness auto
termination
  by (relation "measure (\<lambda>n. n)") auto

declare str_nat.simps [simp del]

text \<open>\<open>str(i)\<close> of an \<open>int\<close>.\<close>

definition py_str :: "int \<Rightarrow> string" where
  "py_str i = (if i < 0 then CHR ''-'' # str_nat (nat (- i)) else str_nat (nat i))"

text \<open>\<open>s.zfill(width)\<close> for a string without a sign prefix.\<close>

definition zfill :: "nat \<Rightarrow> string \<Rightarrow> string" where
  "zfill width s = replicate (width - length s) CHR ''0'' @ s"

text \<open>\<open>chr(i)\<close>.\<close>

definition chr :: "int \<Rightarrow> char" where
  "chr i = char_of (nat i)"

subsection \<open>The environment: random draws and clock readings\<close>

text \<open>
  The program reads its environment through the module \<open>random\<close> and through
  \<open>datetime.now()\<close>. The environment is a tape of natural numbers and a position on it;
  each call consumes one cell. The functions of \<open>random\<close> map the cell into their range
  as the library does from its raw bits: \<open>random()\<close> is a multiple of \<open>2\<^sup>-\<^sup>5\<^sup>3\<close> in
  \<open>[0, 1)\<close>, \<open>uniform(a, b)\<close> is \<open>a + (b - a) * random()\<close>, \<open>randint(a, b)\<close> is
  \<open>a\<close> plus a number below \<open>b - a + 1\<close>, and \<open>choice(seq)\<close> indexes \<open>seq\<close> with a
  number below its length.
\<close>

type_synonym rng = "(nat \<Rightarrow> nat) \<times> nat"

definition draw :: "rng \<Rightarrow> nat \<times> rng" where
  "draw g = (fst g (snd g), (fst g, Suc (snd g)))"

definition py_random :: "rng \<Rightarrow> pyfloat \<times> rng" where
  "py_random g = (let (n, g') = draw g in (of_nat (n mod 2 ^ 53) / 2 ^ 53, g'))"

definition uniform :: "pyfloat \<Rightarrow> pyfloat \<Rightarrow> rng \<Rightarrow> pyfloat \<times> rng" where
  "uniform a b g = (let (u, g') = py_random g in (fadd a (fmul (fsub b a) u), g'))"

definition randint :: "int \<Rightarrow> int \<Rightarrow> rng \<Rightarrow> int \<times> rng" where
  "randint a b g = (let (n, g') = draw g in (a + int (n mod nat (b - a + 1)), g'))"

text \<open>
  \<open>choice\<close> raises \<open>IndexError\<close> on an empty sequence; every call of the source passes
  a non-empty list literal, and the definition says nothing about the empty one.
\<close>

definition choice :: "'a list \<Rightarrow> rng \<Rightarrow> 'a \<times> rng" where
  "choice seq g = (let (n, g') = draw g in (seq ! (n mod length seq), g'))"

text \<open>
  A \<open>datetime\<close> is its number of microseconds since the epoch; the stored
  \<open>isoformat()\<close> text is a rendering of that number and is not modelled apart from it.
\<close>

type_synonym datetime = int

definition datetime_now :: "rng \<Rightarrow> datetime \<times> rng" where
  "datetime_now g = (let (n, g') = draw g in (int n, g'))"

definition timedelta_hours :: "int \<Rightarrow> int" where
  "timedelta_hours h = h * 3600000000"

definition timedelta_minutes :: "int \<Rightarrow> int" where
  "timedelta_minutes m = m * 60000000"

text \<open>A \<open>for\<close> loop that appends one generated document per item, threading the tape.\<close>

fun for_each :: "('a \<Rightarrow> rng \<Rightarrow> 'b \<times> rng) \<Rightarrow> 'a list \<Rightarrow> rng \<Rightarrow> 'b list \<times> rng" where
  "for_each body [] g = ([], g)"
| "for_each body (x # xs) g =
     (let (y, g1) = body x g; (ys, g2) = for_each body xs g1 in (y # ys, g2))"

section \<open>The data model\<close>

text \<open>
  The documents of the five collections, with the field names of the source. The
  \<open>_id\<close> that the store adds is projected away by every reader and is left out.
\<close>

record location =
  lat :: pyfloat
  lng :: pyfloat

record address_location = location +
  address :: string

record driver =
  driver_id :: string
  name :: string
  phone :: string
  rating :: pyfloat
  total_rides :: int
  status :: string
  location :: location
  earnings_today :: pyfloat
  vehicle_id :: string

record rider =
  rider_id :: string
  name :: string
  phone :: string
  rating :: pyfloat
  total_rides :: int
  payment_method :: string
  wallet_balance :: pyfloat

text \<open>The field \<open>make\<close> of a vehicle is \<open>vmake\<close> here (\<open>make\<close> is taken by the record package).\<close>

record vehicle =
  vehicle_id :: string
  vmake :: string
  model :: string
  year :: int
  license_plate :: string
  color :: string
  capacity :: int

record ride =
  ride_id :: string
  driver_id :: string
  rider_id :: string
  pickup_location :: address_location
  dropoff_location :: address_location
  request_time :: datetime
  start_time :: "datetime option"
  end_time :: "datetime option"
  status :: string
  distance_km :: pyfloat
  duration_minutes :: "int option"
  base_fare :: pyfloat
  surge_multiplier :: pyfloat
  total_fare :: pyfloat
  payment_status :: string
  rating :: "pyfloat option"

record surge_zone =
  zone_id :: string
  zone_name :: string
  current_surge :: pyfloat
  demand_level :: string
  available_drivers :: int
  active_requests :: int
  timestamp :: datetime
  avg_wait_time :: int

section \<open>The document store\<close>

text \<open>
  The database \<open>ride_demo\<close>: five collections, each the list of its documents in
  insertion order, and whether the server answers. A call on an unreachable server raises
  \<open>ServerSelectionTimeoutError\<close>.
\<close>

record db =
  drivers :: "driver list"
  riders :: "rider list"
  rides :: "ride list"
  surge_pricing :: "surge_zone list"
  vehicles :: "vehicle list"
  reachable :: bool

datatype collection = Drivers | Riders | Rides | SurgePricing | Vehicles

definition storage :: "db \<Rightarrow> 'a \<Rightarrow> py_error + 'a" where
  "storage d result = (if reachable d then Inr result else Inl ServerSelectionTimeoutError)"

text \<open>\<open>db[col].delete_many({})\<close>: the empty filter matches every document.\<close>

definition delete_many :: "collection \<Rightarrow> db \<Rightarrow> py_error + db" where
  "delete_many col d = storage d
     (case col of
        Drivers \<Rightarrow> d\<lparr>drivers := []\<rparr>
      | Riders \<Rightarrow> d\<lparr>riders := []\<rparr>
      | Rides \<Rightarrow> d\<lparr>rides := []\<rparr>
      | SurgePricing \<Rightarrow> d\<lparr>surge_pricing := []\<rparr>
      | Vehicles \<Rightarrow> d\<lparr>vehicles := []\<rparr>)"

definition insert_many_drivers :: "driver list \<Rightarrow> db \<Rightarrow> py_error + db" where
  "insert_many_drivers xs d = storage d (d\<lparr>drivers := drivers d @ xs\<rparr>)"

definition insert_many_riders :: "rider list \<Rightarrow> db \<Rightarrow> py_error + db" where
  "insert_many_riders xs d = storage d (d\<lparr>riders := riders d @ xs\<rparr>)"

definition insert_many_vehicles :: "vehicle list \<Rightarrow> db \<Rightarrow> py_error + db" where
  "insert_many_vehicles xs d = storage d (d\<lparr>vehicles := vehicles d @ xs\<rparr>)"

definition insert_many_rides :: "ride list \<Rightarrow> db \<Rightarrow> py_error + db" where
  "insert_many_rides xs d = storage d (d\<lparr>rides := rides d @ xs\<rparr>)"

definition insert_many_surge_pricing :: "surge_zone list \<Rightarrow> db \<Rightarrow> py_error + db" where
  "insert_many_surge_pricing xs d = storage d (d\<lparr>surge_pricing := surge_pricing d @ xs\<rparr>)"

definition insert_one_ride :: "ride \<Rightarrow> db \<Rightarrow> py_error + db" where
  "insert_one_ride r d = storage d (d\<lparr>rides := rides d @ [r]\<rparr>)"

text \<open>\<open>find(filter)\<close> and \<open>count_documents(filter)\<close>, the filter as a predicate.\<close>

definition find :: "db \<Rightarrow> 'a list \<Rightarrow> ('a \<Rightarrow> bool) \<Rightarrow> py_error + 'a list" where
  "find d coll flt = storage d (filter flt coll)"

definition count_documents :: "db \<Rightarrow> 'a list \<Rightarrow> ('a \<Rightarrow> bool) \<Rightarrow> py_error + nat" where
  "count_documents d coll flt = storage d (length (filter flt coll))"

text \<open>Sequencing inside a \<open>try\<close> block: the first exception ends the block.\<close>

definition bindE :: "'e + 'a \<Rightarrow> ('a \<Rightarrow> 'e + 'b) \<Rightarrow> 'e + 'b" where
  "bindE m f = (case m of Inl e \<Rightarrow> Inl e | Inr x \<Rightarrow> f x)"

text \<open>
  One storage call of a \<open>try\<close> block that carries the database along: once a call has
  raised, the rest of the block is skipped and the database stays as the last successful
  call left it.
\<close>

definition attempt :: "bool \<times> db \<Rightarrow> (db \<Rightarrow> py_error + db) \<Rightarrow> bool \<times> db" where
  "attempt s call =
     (case s of
        (False, d) \<Rightarrow> (False, d)
      | (True, d) \<Rightarrow> (case call d of Inl e \<Rightarrow> (False, d) | Inr d' \<Rightarrow> (True, d')))"

section \<open>Seeding: \<open>initialize_database\<close>\<close>

definition driver_names :: "string list" where
  "driver_names = [''John Smith'', ''Emma Johnson'', ''Michael Brown'', ''Sarah Davis'',
     ''David Wilson'', ''Lisa Anderson'', ''James Taylor'', ''Maria Garcia'',
     ''Robert Martinez'', ''Jennifer Lopez'', ''William Clark'', ''Patricia White'']"

definition gen_driver :: "nat \<times> string \<Rightarrow> rng \<Rightarrow> driver \<times> rng" where
  "gen_driver item g0 =
     (let (i, name) = item;
          (ph, g1) = randint 1000 9999 g0;
          (rt, g2) = uniform 4 5 g1;
          (tr, g3) = randint 50 500 g2;
          (st, g4) = choice [''available'', ''busy'', ''offline''] g3;
          (la, g5) = uniform (lit (407/10)) (lit (408/10)) g4;
          (ln, g6) = uniform (- 74) (- lit (739/10)) g5;
          (ea, g7) = uniform 50 300 g6
      in (\<lparr>driver.driver_id = ''DRV'' @ zfill 3 (py_str (int i)),
            driver.name = name,
            driver.phone = ''+1-555-'' @ py_str ph,
            driver.rating = py_round rt 2,
            driver.total_rides = tr,
            driver.status = st,
            driver.location = \<lparr>lat = py_round la 4, lng = py_round ln 4\<rparr>,
            driver.earnings_today = py_round ea 2,
            driver.vehicle_id = ''VEH'' @ zfill 3 (py_str (int i))\<rparr>, g7))"

definition rider_names :: "string list" where
  "rider_names = [''Alice Cooper'', ''Bob Martin'', ''Charlie Evans'', ''Diana Prince'',
     ''Edward Norton'', ''Fiona Apple'', ''George Lucas'', ''Hannah Montana'',
     ''Ian McKellen'', ''Julia Roberts'', ''Kevin Hart'', ''Laura Palmer'']"

definition gen_rider :: "nat \<times> string \<Rightarrow> rng \<Rightarrow> rider \<times> rng" where
  "gen_rider item g0 =
     (let (i, name) = item;
          (ph, g1) = randint 1000 9999 g0;
          (rt, g2) = uniform 4 5 g1;
          (tr, g3) = randint 10 200 g2;
          (pm, g4) = choice [''Credit Card'', ''PayPal'', ''Apple Pay'', ''Google Pay''] g3;
          (wb, g5) = uniform 0 100 g4
      in (\<lparr>rider.rider_id = ''RDR'' @ zfill 3 (py_str (int i)),
            rider.name = name,
            rider.phone = ''+1-555-'' @ py_str ph,
            rider.rating = py_round rt 2,
            rider.total_rides = tr,
            rider.payment_method = pm,
            rider.wallet_balance = py_round wb 2\<rparr>, g5))"

definition vehicle_data :: "(string \<times> string \<times> int) list" where
  "vehicle_data = [(''Toyota'', ''Camry'', 2021), (''Honda'', ''Civic'', 2022),
     (''Ford'', ''Fusion'', 2020), (''Chevrolet'', ''Malibu'', 2021),
     (''Nissan'', ''Altima'', 2022), (''Hyundai'', ''Sonata'', 2021),
     (''Kia'', ''Optima'', 2020), (''Mazda'', ''Mazda6'', 2021),
     (''Volkswagen'', ''Passat'', 2022), (''Subaru'', ''Legacy'', 2021),
     (''Tesla'', ''Model 3'', 2023), (''BMW'', ''3 Series'', 2022)]"

definition colors :: "string list" where
  "colors = [''Black'', ''White'', ''Silver'', ''Blue'', ''Red'', ''Gray'', ''Green'', ''Brown'']"

definition gen_vehicle :: "nat \<times> string \<times> string \<times> int \<Rightarrow> rng \<Rightarrow> vehicle \<times> rng" where
  "gen_vehicle item g0 =
     (let (i, mk, mdl, yr) = item;
          (c1, g1) = randint 0 25 g0;
          (c2, g2) = randint 0 25 g1;
          (num, g3) = randint 1000 9999 g2;
          (col, g4) = choice colors g3;
          (cap, g5) = choice [4, 6, 8] g4
      in (\<lparr>vehicle.vehicle_id = ''VEH'' @ zfill 3 (py_str (int i)),
            vehicle.vmake = mk,
            vehicle.model = mdl,
            vehicle.year = yr,
            vehicle.license_plate = chr (65 + c1) # chr (65 + c2) # py_str num,
            vehicle.color = col,
            vehicle.capacity = cap\<rparr>, g5))"

definition statuses :: "string list" where
  "statuses = [''completed'', ''in_progress'', ''cancelled'', ''pending'']"

definition street_names :: "string list" where
  "street_names = [''Main'', ''Oak'', ''Pine'', ''Maple'', ''Broadway'', ''Park'', ''Market'',
     ''First'', ''Second'', ''Third'']"

text \<open>
  One pass of the loop \<open>for i in range(15)\<close>. The draws are taken in the order in which
  Python evaluates the calls; the draw for \<open>rating\<close> is made only for a completed ride.
\<close>

definition gen_ride :: "nat \<Rightarrow> rng \<Rightarrow> ride \<times> rng" where
  "gen_ride i g0 =
     (let (now, g1) = datetime_now g0;
          (hrs, g2) = randint 0 72 g1;
          start_time = now - timedelta_hours hrs;
          (duration, g3) = randint 10 60 g2;
          (km, g4) = uniform 2 25 g3;
          distance = py_round km 2;
          (k, g5) = uniform 2 5 g4;
          base_fare = py_round (fadd (fmul distance (3/2)) k) 2;
          (sm, g6) = uniform 1 (5/2) g5;
          surge_multiplier = py_round sm 1;
          (status, g7) = choice statuses g6;
          (drv, g8) = randint 1 12 g7;
          (rdr, g9) = randint 1 12 g8;
          (pno, g10) = randint 100 999 g9;
          (pst, g11) = choice street_names g10;
          (pla, g12) = uniform (lit (407/10)) (lit (408/10)) g11;
          (pln, g13) = uniform (- 74) (- lit (739/10)) g12;
          (dno, g14) = randint 100 999 g13;
          (dst, g15) = choice street_names g14;
          (dla, g16) = uniform (lit (407/10)) (lit (408/10)) g15;
          (dln, g17) = uniform (- 74) (- lit (739/10)) g16;
          (wait, g18) = randint 2 8 g17;
          (rating, g19) = (if status = ''completed''
                           then (let (rt, g) = uniform (7/2) 5 g18 in (Some (py_round rt 1), g))
                           else (None, g18))
      in (\<lparr>ride.ride_id = ''RIDE'' @ zfill 4 (py_str (int i + 1)),
            ride.driver_id = ''DRV'' @ zfill 3 (py_str drv),
            ride.rider_id = ''RDR'' @ zfill 3 (py_str rdr),
            ride.pickup_location =
              \<lparr>lat = py_round pla 4, lng = py_round pln 4,
               address = py_str pno @ '' '' @ pst @ '' St''\<rparr>,
            ride.dropoff_location =
              \<lparr>lat = py_round dla 4, lng = py_round dln 4,
               address = py_str dno @ '' '' @ dst @ '' Ave''\<rparr>,
            ride.request_time = start_time,
            ride.start_time = Some (start_time + timedelta_minutes wait),
            ride.end_time = Some (start_time + timedelta_minutes duration),
            ride.status = status,
            ride.distance_km = distance,
            ride.duration_minutes = Some duration,
            ride.base_fare = base_fare,
            ride.surge_multiplier = surge_multiplier,
            ride.total_fare = py_round (fmul base_fare surge_multiplier) 2,
            ride.payment_status = (if status = ''completed'' then ''paid'' else ''pending''),
            ride.rating = rating\<rparr>, g19))"

definition zone_types :: "string list" where
  "zone_types = [''Downtown'', ''Uptown'', ''Midtown'', ''Airport'', ''Business District'',
     ''Suburb'', ''Mall Area'', ''Train Station'', ''University'', ''Beach Area'']"

definition gen_surge_zone :: "nat \<Rightarrow> rng \<Rightarrow> surge_zone \<times> rng" where
  "gen_surge_zone i g0 =
     (let (zt, g1) = choice zone_types g0;
          (dir, g2) = choice [''North'', ''South'', ''East'', ''West'', ''Central''] g1;
          (cs, g3) = uniform 1 (lit (28/10)) g2;
          (dl, g4) = choice [''low'', ''medium'', ''high'', ''very_high''] g3;
          (av, g5) = randint 2 25 g4;
          (ar, g6) = randint 0 40 g5;
          (now, g7) = datetime_now g6;
          (wt, g8) = randint 2 15 g7
      in (\<lparr>surge_zone.zone_id = ''ZONE'' @ zfill 2 (py_str (int i + 1)),
            surge_zone.zone_name = zt @ '' '' @ dir,
            surge_zone.current_surge = py_round cs 1,
            surge_zone.demand_level = dl,
            surge_zone.available_drivers = av,
            surge_zone.active_requests = ar,
            surge_zone.timestamp = now,
            surge_zone.avg_wait_time = wt\<rparr>, g8))"

text \<open>
  The body of the \<open>try\<close> block, and the value returned: \<open>True\<close> when every storage
  call went through, \<open>False\<close> from the \<open>except\<close> branch (whose message to the user
  interface is not modelled). The database returned is the one the call leaves behind.
\<close>

definition initialize_database :: "rng \<Rightarrow> db \<Rightarrow> bool \<times> db" where
  "initialize_database g0 d =
     (let s0 = foldl (\<lambda>s col. attempt s (delete_many col)) (True, d)
                 [Drivers, Riders, Rides, SurgePricing, Vehicles];
          (drivers, g1) = for_each gen_driver (enumerate 1 driver_names) g0;
          s1 = attempt s0 (insert_many_drivers drivers);
          (riders, g2) = for_each gen_rider (enumerate 1 rider_names) g1;
          s2 = attempt s1 (insert_many_riders riders);
          (vehicles, g3) = for_each gen_vehicle (enumerate 1 vehicle_data) g2;
          s3 = attempt s2 (insert_many_vehicles vehicles);
          (rides, g4) = for_each gen_ride [0..<15] g3;
          s4 = attempt s3 (insert_many_rides rides);
          (surge_data, g5) = for_each gen_surge_zone [0..<12] g4;
          s5 = attempt s4 (insert_many_surge_pricing surge_data)
      in s5)"

section \<open>Data access\<close>

record metrics =
  total_rides :: nat
  active_drivers :: nat
  total_revenue :: pyfloat
  avg_rating :: pyfloat

text \<open>
  The body of the \<open>try\<close> block of \<open>get_dashboard_metrics\<close>. The filter
  \<open>{"rating": {"$ne": None}}\<close> keeps the rides whose rating is present.
\<close>

definition dashboard_metrics_try :: "db \<Rightarrow> py_error + metrics" where
  "dashboard_metrics_try d =
     bindE (count_documents d (rides d) (\<lambda>r. True)) (\<lambda>total_rides.
     bindE (count_documents d (drivers d) (\<lambda>x. driver.status x = ''available'')) (\<lambda>active_drivers.
     bindE (find d (rides d) (\<lambda>r. ride.status r = ''completed'')) (\<lambda>completed_rides.
     let total_revenue = py_sum (map ride.total_fare completed_rides) in
     bindE (find d (rides d) (\<lambda>r. ride.rating r \<noteq> None)) (\<lambda>rides_with_rating.
     bindE (if rides_with_rating \<noteq> []
            then bindE (truediv (py_sum (map (\<lambda>r. the (ride.rating r)) rides_with_rating))
                          (of_nat (length rides_with_rating)))
                   (\<lambda>q. Inr (py_round q 2))
            else Inr 0) (\<lambda>avg_rating.
     Inr \<lparr>metrics.total_rides = total_rides, metrics.active_drivers = active_drivers,
          metrics.total_revenue = total_revenue, metrics.avg_rating = avg_rating\<rparr>)))))"

definition get_dashboard_metrics :: "db \<Rightarrow> metrics" where
  "get_dashboard_metrics d =
     (case dashboard_metrics_try d of
        Inr m \<Rightarrow> m
      | Inl e \<Rightarrow> \<lparr>metrics.total_rides = 0, metrics.active_drivers = 0,
                   metrics.total_revenue = 0, metrics.avg_rating = 0\<rparr>)"

text \<open>A data frame is the list of its rows; it is \<open>empty\<close> when it has no row.\<close>

definition get_all_drivers :: "db \<Rightarrow> driver list" where
  "get_all_drivers d = (case find d (drivers d) (\<lambda>x. True) of Inr xs \<Rightarrow> xs | Inl e \<Rightarrow> [])"

section \<open>The pages of \<open>main\<close>\<close>

subsection \<open>Driver management: top performers\<close>

text \<open>
  \<open>DataFrame.nlargest(n, column)\<close> with the default \<open>keep='first'\<close>, a function of
  pandas, as its documentation gives it: the rows in descending order of the column, rows
  with equal values in their order of occurrence, cut after \<open>n\<close> rows. For a frame of
  more than \<open>n\<close> rows pandas computes this on the negated column with a stable merge
  sort, which is how it is written here.
\<close>

definition nlargest :: "nat \<Rightarrow> ('a \<Rightarrow> pyfloat) \<Rightarrow> 'a list \<Rightarrow> 'a list" where
  "nlargest n column df = take n (sort_key (\<lambda>row. - column row) df)"

text \<open>
  The rows that the loop at \<open>st.subheader("Top Performers")\<close> turns into metric cards, in
  order; nothing is shown for an empty data frame.
\<close>

definition top_performers :: "db \<Rightarrow> driver list" where
  "top_performers d =
     (let drivers_df = get_all_drivers d
      in if drivers_df \<noteq> [] then nlargest 5 driver.earnings_today drivers_df else [])"

subsection \<open>Add new ride\<close>

text \<open>
  What the widgets of the form return in one run of the script. \<open>form_ok\<close> states what
  the widgets guarantee about these values: a select box returns one of its options, the
  number input for the distance has \<open>min_value=0.5\<close>, and the slider ranges over
  \<open>[1.0, 3.0]\<close>.
\<close>

record form =
  rider :: string
  pickup_addr :: string
  pickup_lat :: pyfloat
  pickup_lng :: pyfloat
  driver :: string
  dropoff_addr :: string
  dropoff_lat :: pyfloat
  dropoff_lng :: pyfloat
  distance :: pyfloat
  surge :: pyfloat
  submitted :: bool

definition form_ok :: "db \<Rightarrow> form \<Rightarrow> bool" where
  "form_ok d ui \<longleftrightarrow>
     rider ui \<in> set (map rider.rider_id (riders d)) \<and>
     driver ui \<in> set (map driver.driver_id
                        (filter (\<lambda>x. driver.status x = ''available'') (drivers d))) \<and>
     1/2 \<le> distance ui \<and> 1 \<le> surge ui \<and> surge ui \<le> 3"

text \<open>How a run of the page ends.\<close>

datatype outcome =
    InitializeWarning
  | NoAvailableDrivers
  | FormShown
  | Created ride
  | CreateError py_error
  | Unhandled py_error

text \<open>The document \<open>new_ride\<close> that the submitted form is turned into.\<close>

definition new_ride :: "form \<Rightarrow> pyfloat \<Rightarrow> pyfloat \<Rightarrow> int \<Rightarrow> datetime \<Rightarrow> ride" where
  "new_ride ui base tot next_id now =
     \<lparr>ride.ride_id = ''RIDE'' @ zfill 4 (py_str next_id),
      ride.driver_id = driver ui,
      ride.rider_id = rider ui,
      ride.pickup_location =
        \<lparr>lat = pickup_lat ui, lng = pickup_lng ui, address = pickup_addr ui\<rparr>,
      ride.dropoff_location =
        \<lparr>lat = dropoff_lat ui, lng = dropoff_lng ui, address = dropoff_addr ui\<rparr>,
      ride.request_time = now,
      ride.start_time = None,
      ride.end_time = None,
      ride.status = ''pending'',
      ride.distance_km = distance ui,
      ride.duration_minutes = None,
      ride.base_fare = base,
      ride.surge_multiplier = surge ui,
      ride.total_fare = tot,
      ride.payment_status = ''pending'',
      ride.rating = None\<rparr>"

text \<open>
  The branch \<open>page == "Add New Ride"\<close> of \<open>main\<close>. The reads of \<open>riders\<close> and of the
  ride count are outside any \<open>try\<close>, so an exception there ends the run unhandled; only
  \<open>insert_one\<close> is guarded.
\<close>

definition add_new_ride :: "form \<Rightarrow> rng \<Rightarrow> db \<Rightarrow> outcome \<times> db" where
  "add_new_ride ui g d =
     (let drivers_df = get_all_drivers d in
      case find d (riders d) (\<lambda>x. True) of
        Inl e \<Rightarrow> (Unhandled e, d)
      | Inr riders_df \<Rightarrow>
          if drivers_df \<noteq> [] \<and> riders_df \<noteq> [] then
            let available = filter (\<lambda>x. driver.status x = ''available'') drivers_df in
            if available = [] then (NoAvailableDrivers, d)
            else if submitted ui then
              let base = py_round (fadd (fmul (distance ui) (3/2)) 3) 2;
                  total = py_round (fmul base (surge ui)) 2
              in (case count_documents d (rides d) (\<lambda>r. True) of
                   Inl e \<Rightarrow> (Unhandled e, d)
                 | Inr n \<Rightarrow>
                     let next_id = int n + 1;
                         r = new_ride ui base total next_id (fst (datetime_now g))
                     in (case insert_one_ride r d of
                          Inl e \<Rightarrow> (CreateError e, d)
                        | Inr d' \<Rightarrow> (Created r, d')))
            else (FormShown, d)
          else (InitializeWarning, d))"

section \<open>What a seed generates\<close>

text \<open>
  The five lists that one run of \<open>initialize_database\<close> generates from a tape, each with
  the tape as the loop leaves it for the next.
\<close>

definition fresh_drivers :: "rng \<Rightarrow> driver list \<times> rng" where
  "fresh_drivers g = for_each gen_driver (enumerate 1 driver_names) g"

definition fresh_riders :: "rng \<Rightarrow> rider list \<times> rng" where
  "fresh_riders g = for_each gen_rider (enumerate 1 rider_names) (snd (fresh_drivers g))"

definition fresh_vehicles :: "rng \<Rightarrow> vehicle list \<times> rng" where
  "fresh_vehicles g = for_each gen_vehicle (enumerate 1 vehicle_data) (snd (fresh_riders g))"

definition fresh_rides :: "rng \<Rightarrow> ride list \<times> rng" where
  "fresh_rides g = for_each gen_ride [0..<15] (snd (fresh_vehicles g))"

definition fresh_surge_data :: "rng \<Rightarrow> surge_zone list \<times> rng" where
  "fresh_surge_data g = for_each gen_surge_zone [0..<12] (snd (fresh_rides g))"

section \<open>Sample data\<close>

text \<open>A tape on which every draw is the same number, and small stores to run the code on.\<close>

definition tape_const :: "nat \<Rightarrow> rng" where
  "tape_const c = (\<lambda>i. c, 0)"

definition empty_db :: db where
  "empty_db = \<lparr>drivers = [], riders = [], rides = [], surge_pricing = [], vehicles = [],
               reachable = True\<rparr>"

definition sample_driver :: "string \<Rightarrow> string \<Rightarrow> pyfloat \<Rightarrow> driver" where
  "sample_driver ident st earned =
     \<lparr>driver.driver_id = ident, driver.name = ''John Smith'', driver.phone = ''+1-555-1000'',
      driver.rating = 9/2, driver.total_rides = 50, driver.status = st,
      driver.location = \<lparr>lat = 40, lng = - 74\<rparr>, driver.earnings_today = earned,
      driver.vehicle_id = ''VEH001''\<rparr>"

definition sample_rider :: rider where
  "sample_rider =
     \<lparr>rider.rider_id = ''RDR001'', rider.name = ''Alice Cooper'', rider.phone = ''+1-555-2000'',
      rider.rating = 5, rider.total_rides = 10, rider.payment_method = ''PayPal'',
      rider.wallet_balance = 20\<rparr>"

definition sample_ride :: "string \<Rightarrow> pyfloat \<Rightarrow> pyfloat option \<Rightarrow> ride" where
  "sample_ride st fare rated =
     \<lparr>ride.ride_id = ''RIDE0001'', ride.driver_id = ''DRV001'', ride.rider_id = ''RDR001'',
      ride.pickup_location = \<lparr>lat = 40, lng = - 74, address = ''123 Main Street''\<rparr>,
      ride.dropoff_location = \<lparr>lat = 41, lng = - 73, address = ''456 Broadway''\<rparr>,
      ride.request_time = 0, ride.start_time = None, ride.end_time = None,
      ride.status = st, ride.distance_km = 4, ride.duration_minutes = None,
      ride.base_fare = fare, ride.surge_multiplier = 1, ride.total_fare = fare,
      ride.payment_status = (if st = ''completed'' then ''paid'' else ''pending''),
      ride.rating = rated\<rparr>"

definition sample_db :: "driver list \<Rightarrow> ride list \<Rightarrow> db" where
  "sample_db ds rs = \<lparr>drivers = ds, riders = [sample_rider], rides = rs, surge_pricing = [],
                      vehicles = [], reachable = True\<rparr>"

definition sample_form :: "pyfloat \<Rightarrow> pyfloat \<Rightarrow> form" where
  "sample_form km sm =
     \<lparr>rider = ''RDR001'', pickup_addr = ''123 Main Street'', pickup_lat = 40, pickup_lng = - 74,
      driver = ''DRV001'', dropoff_addr = ''456 Broadway'', dropoff_lat = 41, dropoff_lng = - 73,
      distance = km, surge = sm, submitted = True\<rparr>"

section \<open>Rounding to a float\<close>

lemma rhe_ge: "of_int n \<le> x \<Longrightarrow> n \<le> rhe x"
  by (auto simp: rhe_def Let_def le_floor_iff) linarith+

lemma rhe_le: "x \<le> of_int n \<Longrightarrow> rhe x \<le> n"
proof -
  assume a: "x \<le> of_int n"
  have f: "\<lfloor>x\<rfloor> \<le> n" using a by (simp add: floor_le_iff) 
  show ?thesis
  proof (cases "x = of_int \<lfloor>x\<rfloor>")
    case True
    then show ?thesis using f by (simp add: rhe_def Let_def)
  next
    case False
    then have "of_int \<lfloor>x\<rfloor> < x" by (metis of_int_floor_le order_less_le)
    then have "of_int \<lfloor>x\<rfloor> < (of_int n :: rat)" using a by linarith
    then have "\<lfloor>x\<rfloor> < n" by simp
    then show ?thesis by (simp add: rhe_def Let_def)
  qed
qed

lemma expo_lower: "0 < x \<Longrightarrow> 2 powi (expo x) \<le> x"
proof -
  assume pos: "0 < x"
  show ?thesis
  proof (cases "1 \<le> x")
    case True
    then have fp: "0 < \<lfloor>x\<rfloor>" by simp
    from bitlen_bounds[OF fp] have "2 ^ nat (bitlen \<lfloor>x\<rfloor> - 1) \<le> \<lfloor>x\<rfloor>" by simp
    then have "(of_int (2 ^ nat (bitlen \<lfloor>x\<rfloor> - 1)) :: rat) \<le> of_int \<lfloor>x\<rfloor>"
      by (simp only: of_int_le_iff)
    also have "\<dots> \<le> x" by simp
    finally have "(2::rat) ^ nat (bitlen \<lfloor>x\<rfloor> - 1) \<le> x" by simp
    moreover have "1 \<le> bitlen \<lfloor>x\<rfloor>" using fp by (simp add: bitlen_alt_def)
    ultimately show ?thesis using True by (simp add: expo_def power_int_def)
  next
    case False
    define y where "y = 1 / x"
    define n where "n = \<lceil>y\<rceil> - 1"
    have y1: "1 < y" using False pos by (simp add: y_def)
    have yn: "y \<le> of_int n + 1" by (simp add: n_def)
    have "0 < n" using y1 by (simp add: n_def)
    from bitlen_bounds[OF this] have "n < 2 ^ nat (bitlen n)" by simp
    then have "n + 1 \<le> 2 ^ nat (bitlen n)" by simp
    then have "(of_int (n + 1) :: rat) \<le> of_int (2 ^ nat (bitlen n))"
      by (simp only: of_int_le_iff)
    then have "y \<le> 2 ^ nat (bitlen n)" using yn by simp
    then have "1 / 2 ^ nat (bitlen n) \<le> 1 / y" using y1
      by (intro divide_left_mono) auto
    then have "1 / 2 ^ nat (bitlen n) \<le> x" using pos by (simp add: y_def)
    moreover have "expo x = - bitlen n" using False by (simp add: expo_def n_def y_def)
    moreover have "0 \<le> bitlen n" by (rule bitlen_nonneg)
    ultimately show ?thesis by (auto simp add: power_int_def field_simps)
  qed
qed

lemma expo_less: "0 < x \<Longrightarrow> x < 2 powi k \<Longrightarrow> expo x < k"
proof (rule ccontr)
  assume pos: "0 < x" and lt: "x < 2 powi k" and n: "\<not> expo x < k"
  then have "k \<le> expo x" by simp
  then have "(2::rat) powi k \<le> 2 powi (expo x)" by (intro power_int_increasing) auto
  with expo_lower[OF pos] lt show False by linarith
qed

text \<open>
  Rounding to the nearest float does not cross a float: between two multiples of
  \<open>2 powi j\<close> that have at most 53 bits, the rounded value stays between them.
\<close>

lemma rnd64_bounds:
  assumes "0 \<le> x" and "of_int a * 2 powi j \<le> x" and "x \<le> of_int b * 2 powi j"
    and "of_int b * 2 powi j < (2::rat) powi (j + 53)"
  shows "of_int a * 2 powi j \<le> rnd64 x \<and> rnd64 x \<le> of_int b * 2 powi j"
proof (cases "x = 0")
  case True
  then show ?thesis using assms by (simp add: rnd64_def)
next
  case False
  then have pos: "0 < x" using assms(1) by simp
  define e where "e = expo x"
  define u :: rat where "u = 2 powi (e - 52)"
  have "x < 2 powi (j + 53)" using assms by linarith
  then have "e < j + 53" unfolding e_def using expo_less pos by blast
  then have d: "0 \<le> j - (e - 52)" by simp
  have u0: "0 < u" by (simp add: u_def)
  have pj: "(2::rat) powi j = of_int (2 ^ nat (j - (e - 52))) * u"
  proof -
    have "(2::rat) powi j = 2 powi ((j - (e - 52)) + (e - 52))" by simp
    also have "\<dots> = 2 powi (j - (e - 52)) * 2 powi (e - 52)"
      by (rule power_int_add) simp
    finally show ?thesis using d by (simp add: u_def power_int_def)
  qed
  have r: "rnd64 x = of_int (rhe (x / u)) * u"
    using pos by (simp add: rnd64_def Let_def u_def e_def)
  have ia: "of_int a * 2 powi j = of_int (a * 2 ^ nat (j - (e - 52))) * u"
    using pj by simp
  have ib: "of_int b * 2 powi j = of_int (b * 2 ^ nat (j - (e - 52))) * u"
    using pj by simp
  have "of_int (a * 2 ^ nat (j - (e - 52))) \<le> x / u"
    using assms(2) u0 unfolding ia by (simp add: pos_le_divide_eq)
  then have "a * 2 ^ nat (j - (e - 52)) \<le> rhe (x / u)" by (rule rhe_ge)
  then have "(of_int (a * 2 ^ nat (j - (e - 52))) :: rat) \<le> of_int (rhe (x / u))"
    by (simp only: of_int_le_iff)
  then have lo: "of_int a * 2 powi j \<le> rnd64 x"
    unfolding ia r using u0 by (simp only: mult_le_cancel_right_pos)
  have "x / u \<le> of_int (b * 2 ^ nat (j - (e - 52)))"
    using assms(3) u0 unfolding ib by (simp add: pos_divide_le_eq)
  then have "rhe (x / u) \<le> b * 2 ^ nat (j - (e - 52))" by (rule rhe_le)
  then have "(of_int (rhe (x / u)) :: rat) \<le> of_int (b * 2 ^ nat (j - (e - 52)))"
    by (simp only: of_int_le_iff)
  then have hi: "rnd64 x \<le> of_int b * 2 powi j"
    unfolding ib r using u0 by (simp only: mult_le_cancel_right_pos)
  from lo hi show ?thesis ..
qed

text \<open>Bounds in halves, the form in which the constants of the source come.\<close>

lemma rnd64_halves:
  assumes "0 \<le> x" and "of_int a / 2 \<le> x" and "x \<le> of_int b / 2" and "b < 2 ^ 53"
  shows "of_int a / 2 \<le> rnd64 x \<and> rnd64 x \<le> of_int b / 2"
proof -
  have "(of_int b :: rat) < of_int (2 ^ 53)" using assms(4) by (simp only: of_int_less_iff)
  then have "(of_int b :: rat) * 2 powi (- 1) < 2 powi (- 1 + 53)"
    by (simp add: power_int_def)
  with rnd64_bounds[of x a "- 1" b] assms show ?thesis
    by (simp add: power_int_minus field_simps)
qed

lemma rnd64_half_exact:
  assumes "0 \<le> m" and "m < 2 ^ 53"
  shows "rnd64 (of_int m / 2) = of_int m / 2"
  using rnd64_halves[of "of_int m / 2" m m] assms by simp

lemma py_random_range: "0 \<le> fst (py_random g) \<and> fst (py_random g) < 1"
  by (simp add: py_random_def split_beta Let_def)

lemma rating_draw_range:
  "7/2 \<le> py_round (fst (uniform (7/2) 5 g)) 1 \<and> py_round (fst (uniform (7/2) 5 g)) 1 \<le> 5"
proof -
  define u where "u = fst (py_random g)"
  have u: "0 \<le> u" "u < 1" using py_random_range[of g] by (simp_all add: u_def)
  have s: "fsub 5 (7/2) = 3/2"
    using rnd64_half_exact[of 3] by (simp add: fsub_def)
  define w where "w = fmul (3/2) u"
  have w: "0 \<le> w \<and> w \<le> 3/2"
    using rnd64_halves[of "3/2 * u" 0 3] u by (simp add: w_def fmul_def)
  define x where "x = fadd (7/2) w"
  have x: "7/2 \<le> x \<and> x \<le> 5"
    using rnd64_halves[of "7/2 + w" 7 10] w by (simp add: x_def fadd_def)
  have ux: "fst (uniform (7/2) 5 g) = x"
    by (simp add: uniform_def split_beta Let_def s x_def w_def u_def)
  define n where "n = rhe (x * 10 ^ 1)"
  have b: "of_int 35 \<le> x * 10 ^ 1" "x * 10 ^ 1 \<le> of_int 50" using x by simp_all
  have n: "35 \<le> n" "n \<le> 50"
    unfolding n_def using rhe_ge[OF b(1)] rhe_le[OF b(2)] by simp_all
  from n have "(of_int 35 :: rat) \<le> of_int n" "(of_int n :: rat) \<le> of_int 50"
    by (simp_all only: of_int_le_iff)
  then have q: "7/2 \<le> (of_int n :: rat) / 10 ^ 1" "(of_int n :: rat) / 10 ^ 1 \<le> 5" by simp_all
  have "7/2 \<le> rnd64 (of_int n / 10 ^ 1) \<and> rnd64 (of_int n / 10 ^ 1) \<le> 5"
    using rnd64_halves[of "of_int n / 10 ^ 1" 7 10] q by simp
  then show ?thesis by (simp add: ux py_round_def n_def)
qed

section \<open>The loops of the seed\<close>

lemma length_for_each: "length (fst (for_each body xs g)) = length xs"
  by (induction xs arbitrary: g) (auto simp: Let_def split_beta)

lemma for_each_all:
  assumes "\<And>x g. P (fst (body x g))"
  shows "\<forall>y\<in>set (fst (for_each body xs g)). P y"
proof (induction xs arbitrary: g)
  case Nil
  then show ?case by simp
next
  case (Cons x xs)
  then show ?case using assms by (simp add: Let_def split_beta)
qed

lemma initialize_database_unreachable:
  "\<not> reachable d \<Longrightarrow> initialize_database g d = (False, d)"
  by (simp add: initialize_database_def attempt_def storage_def delete_many_def
      insert_many_drivers_def insert_many_riders_def insert_many_vehicles_def
      insert_many_rides_def insert_many_surge_pricing_def Let_def split_beta)

lemma initialize_database_reachable:
  assumes "reachable d"
  shows "initialize_database g d =
     (True, d\<lparr>drivers := fst (fresh_drivers g),
              riders := fst (fresh_riders g),
              rides := fst (fresh_rides g),
              surge_pricing := fst (fresh_surge_data g),
              vehicles := fst (fresh_vehicles g)\<rparr>)"
  using assms
  by (simp add: initialize_database_def attempt_def storage_def delete_many_def
      insert_many_drivers_def insert_many_riders_def insert_many_vehicles_def
      insert_many_rides_def insert_many_surge_pricing_def Let_def split_beta
      fresh_drivers_def fresh_riders_def fresh_vehicles_def fresh_rides_def
      fresh_surge_data_def)

section \<open>Generated rides\<close>

lemma draw_tape: "fst (snd (draw g)) = fst g"
  by (simp add: draw_def)

lemma randint_tape: "fst (snd (randint a b g)) = fst g"
  by (simp add: randint_def split_beta draw_tape)

lemma uniform_tape: "fst (snd (uniform a b g)) = fst g"
  by (simp add: uniform_def py_random_def split_beta draw_tape)

lemma choice_tape: "fst (snd (choice xs g)) = fst g"
  by (simp add: choice_def split_beta draw_tape)

lemma datetime_now_tape: "fst (snd (datetime_now g)) = fst g"
  by (simp add: datetime_now_def split_beta draw_tape)

lemmas tape_simps = draw_tape randint_tape uniform_tape choice_tape datetime_now_tape

lemma gen_driver_tape: "fst (snd (gen_driver x g)) = fst g"
  by (simp add: gen_driver_def split_beta Let_def tape_simps)

lemma gen_rider_tape: "fst (snd (gen_rider x g)) = fst g"
  by (simp add: gen_rider_def split_beta Let_def tape_simps)

lemma gen_vehicle_tape: "fst (snd (gen_vehicle x g)) = fst g"
  by (simp add: gen_vehicle_def split_beta Let_def tape_simps)

lemma gen_ride_tape: "fst (snd (gen_ride x g)) = fst g"
  by (simp add: gen_ride_def split_beta Let_def tape_simps)

lemma for_each_tape:
  assumes "\<And>x g. fst (snd (body x g)) = fst g"
  shows "fst (snd (for_each body xs g)) = fst g"
  by (induction xs arbitrary: g) (simp_all add: Let_def split_beta assms)

lemma fresh_vehicles_tape: "fst (snd (fresh_vehicles g)) = fst g"
  by (simp add: fresh_vehicles_def fresh_riders_def fresh_drivers_def for_each_tape
      gen_driver_tape gen_rider_tape gen_vehicle_tape)

lemma gen_ride_status_const:
  "fst g = (\<lambda>i. c) \<Longrightarrow> ride.status (fst (gen_ride i g)) = statuses ! (c mod 4)"
  apply (simp add: gen_ride_def split_beta Let_def)
  apply (simp add: choice_def split_beta  statuses_def)
  apply (simp add: draw_def tape_simps)
  done

lemma hd_fresh_rides: "hd (fst (fresh_rides g)) = fst (gen_ride 0 (snd (fresh_vehicles g)))"
  by (simp add: fresh_rides_def upt_rec split_beta Let_def)

lemma gen_ride_total_fare:
  "ride.total_fare (fst (gen_ride i g)) =
     py_round (fmul (ride.base_fare (fst (gen_ride i g)))
                    (ride.surge_multiplier (fst (gen_ride i g)))) 2"
  by (simp add: gen_ride_def Let_def split_beta)

lemma gen_ride_completed:
  "ride.status (fst (gen_ride i g)) = ''completed'' \<Longrightarrow>
     ride.payment_status (fst (gen_ride i g)) = ''paid'' \<and>
     (\<exists>x. ride.rating (fst (gen_ride i g)) = Some x \<and> 7/2 \<le> x \<and> x \<le> 5)"
  using rating_draw_range by (simp add: gen_ride_def Let_def split_beta)

lemma gen_ride_not_completed:
  "ride.status (fst (gen_ride i g)) \<noteq> ''completed'' \<Longrightarrow>
     ride.payment_status (fst (gen_ride i g)) = ''pending'' \<and>
     ride.rating (fst (gen_ride i g)) = None"
  by (simp add: gen_ride_def Let_def split_beta)

section \<open>The page that adds a ride\<close>

lemma add_new_ride_success:
  assumes "reachable d" and "filter (\<lambda>x. driver.status x = ''available'') (drivers d) \<noteq> []"
    and "riders d \<noteq> []" and "submitted ui"
  shows "add_new_ride ui g d =
     (let base = py_round (fadd (fmul (distance ui) (3/2)) 3) 2;
          r = new_ride ui base (py_round (fmul base (surge ui)) 2)
                (int (length (rides d)) + 1) (fst (datetime_now g))
      in (Created r, d\<lparr>rides := rides d @ [r]\<rparr>))"
proof -
  have "drivers d \<noteq> []" using assms(2) by auto
  then show ?thesis using assms
    by (simp add: add_new_ride_def get_all_drivers_def find_def storage_def
        count_documents_def insert_one_ride_def Let_def)
qed

lemma add_new_ride_Created_iff:
  "(\<exists>r d'. add_new_ride ui g d = (Created r, d')) \<longleftrightarrow>
     reachable d \<and> filter (\<lambda>x. driver.status x = ''available'') (drivers d) \<noteq> [] \<and>
     riders d \<noteq> [] \<and> submitted ui"
proof
  assume "\<exists>r d'. add_new_ride ui g d = (Created r, d')"
  then show "reachable d \<and> filter (\<lambda>x. driver.status x = ''available'') (drivers d) \<noteq> [] \<and>
     riders d \<noteq> [] \<and> submitted ui"
    by (auto simp: add_new_ride_def get_all_drivers_def find_def storage_def
        count_documents_def insert_one_ride_def Let_def split: if_splits)
next
  assume "reachable d \<and> filter (\<lambda>x. driver.status x = ''available'') (drivers d) \<noteq> [] \<and>
     riders d \<noteq> [] \<and> submitted ui"
  then show "\<exists>r d'. add_new_ride ui g d = (Created r, d')"
    using add_new_ride_success[of d ui g] by (simp add: Let_def)
qed

lemma add_new_ride_unchanged:
  "(\<forall>r. fst (add_new_ride ui g d) \<noteq> Created r) \<Longrightarrow> snd (add_new_ride ui g d) = d"
  by (auto simp: add_new_ride_def get_all_drivers_def find_def storage_def
        count_documents_def insert_one_ride_def Let_def split: if_splits)

lemma seeded_rides:
  "fst (initialize_database g d) \<Longrightarrow>
     rides (snd (initialize_database g d)) = fst (fresh_rides g)"
  by (cases "reachable d")
     (simp_all add: initialize_database_reachable initialize_database_unreachable)

lemma fresh_rides_all:
  assumes "\<And>i g. P (fst (gen_ride i g))"
  shows "\<forall>r\<in>set (fst (fresh_rides g)). P r"
  unfolding fresh_rides_def using assms by (rule for_each_all)

lemma length_fresh_rides: "length (fst (fresh_rides g)) = 15"
  by (simp add: fresh_rides_def length_for_each)

lemma hd_fresh_rides_mem: "hd (fst (fresh_rides g)) \<in> set (fst (fresh_rides g))"
  using length_fresh_rides[of g] by (intro hd_in_set) auto

lemma sample_success:
  "add_new_ride (sample_form km sm) g
       (sample_db (sample_driver ''DRV001'' ''available'' e # ds) rs) =
     (let base = py_round (fadd (fmul km (3/2)) 3) 2;
          r = new_ride (sample_form km sm) base (py_round (fmul base sm) 2)
                (int (length rs) + 1) (fst (datetime_now g))
      in (Created r, (sample_db (sample_driver ''DRV001'' ''available'' e # ds) rs)\<lparr>rides := rs @ [r]\<rparr>))"
  using add_new_ride_success[of "sample_db (sample_driver ''DRV001'' ''available'' e # ds) rs"
      "sample_form km sm" g]
  by (simp add: sample_db_def sample_driver_def sample_form_def)

section \<open>The claims\<close>

text \<open>
  C1. Every ride that the seed inserts, and every ride that the page for a new ride inserts,
  has \<open>total_fare = round(base_fare * surge_multiplier, 2)\<close>.
\<close>

theorem total_fare_invariant:
  "(fst (initialize_database g d) \<longrightarrow>
      (\<forall>r\<in>set (rides (snd (initialize_database g d))).
         ride.total_fare r = py_round (fmul (ride.base_fare r) (ride.surge_multiplier r)) 2)) \<and>
   (\<forall>r d'. add_new_ride ui g d = (Created r, d') \<longrightarrow>
      rides d' = rides d @ [r] \<and>
      ride.total_fare r = py_round (fmul (ride.base_fare r) (ride.surge_multiplier r)) 2)"
proof (intro conjI impI allI)
  assume "fst (initialize_database g d)"
  then have "rides (snd (initialize_database g d)) = fst (fresh_rides g)"
    by (rule seeded_rides)
  moreover have "\<forall>r\<in>set (fst (fresh_rides g)).
      ride.total_fare r = py_round (fmul (ride.base_fare r) (ride.surge_multiplier r)) 2"
    by (rule fresh_rides_all) (rule gen_ride_total_fare)
  ultimately show "\<forall>r\<in>set (rides (snd (initialize_database g d))).
      ride.total_fare r = py_round (fmul (ride.base_fare r) (ride.surge_multiplier r)) 2"
    by simp
next
  fix r d'
  assume c: "add_new_ride ui g d = (Created r, d')"
  then have ok: "reachable d" "filter (\<lambda>x. driver.status x = ''available'') (drivers d) \<noteq> []"
    "riders d \<noteq> []" "submitted ui"
    using add_new_ride_Created_iff[of ui g d] by blast+
  from add_new_ride_success[OF ok, of g] c
  show "rides d' = rides d @ [r]"
    by (auto simp: Let_def)
  from add_new_ride_success[OF ok, of g] c
  show "ride.total_fare r = py_round (fmul (ride.base_fare r) (ride.surge_multiplier r)) 2"
    by (auto simp: Let_def new_ride_def)
qed

theorem total_fare_invariant_witness:
  "fst (initialize_database (tape_const 0) empty_db) \<and>
   hd (rides (snd (initialize_database (tape_const 0) empty_db)))
     \<in> set (rides (snd (initialize_database (tape_const 0) empty_db))) \<and>
   ride.total_fare (hd (rides (snd (initialize_database (tape_const 0) empty_db)))) =
     py_round (fmul (ride.base_fare (hd (rides (snd (initialize_database (tape_const 0) empty_db)))))
       (ride.surge_multiplier (hd (rides (snd (initialize_database (tape_const 0) empty_db)))))) 2 \<and>
   (case add_new_ride (sample_form 5 1) (tape_const 0)
           (sample_db [sample_driver ''DRV001'' ''available'' 100] []) of
      (Created r, d') \<Rightarrow>
         rides d' = [r] \<and>
         ride.total_fare r = py_round (fmul (ride.base_fare r) (ride.surge_multiplier r)) 2
    | _ \<Rightarrow> False)"
proof -
  let ?s = "initialize_database (tape_const 0) empty_db"
  let ?d = "sample_db [sample_driver ''DRV001'' ''available'' 100] []"
  have a: "fst ?s"
    by (simp add: initialize_database_reachable empty_db_def)
  have b: "hd (rides (snd ?s)) \<in> set (rides (snd ?s))"
    by (simp add: seeded_rides[OF a] hd_fresh_rides_mem)
  have t: "ride.total_fare (hd (rides (snd ?s))) =
     py_round (fmul (ride.base_fare (hd (rides (snd ?s))))
       (ride.surge_multiplier (hd (rides (snd ?s))))) 2"
    using total_fare_invariant[of "tape_const 0" empty_db "sample_form 5 1"] a b by blast
  obtain r d' where c: "add_new_ride (sample_form 5 1) (tape_const 0) ?d = (Created r, d')"
    by (simp add: sample_success Let_def)
  have e: "rides ?d = []"
    by (simp add: sample_db_def)
  have u: "rides d' = [r] \<and>
      ride.total_fare r = py_round (fmul (ride.base_fare r) (ride.surge_multiplier r)) 2"
    using total_fare_invariant[of "tape_const 0" ?d "sample_form 5 1"] c e by auto
  show ?thesis using a b t u by (simp add: c)
qed

lemma hd_seeded_status:
  "ride.status (hd (rides (snd (initialize_database (tape_const c) empty_db)))) =
     statuses ! (c mod 4)"
proof -
  have a: "fst (initialize_database (tape_const c) empty_db)"
    by (simp add: initialize_database_reachable empty_db_def)
  have "fst (snd (fresh_vehicles (tape_const c))) = (\<lambda>i. c)"
    by (simp add: fresh_vehicles_tape tape_const_def)
  then show ?thesis
    by (simp add: seeded_rides[OF a] hd_fresh_rides gen_ride_status_const)
qed

text \<open>
  C2. For every ride that the seed produces: when its status is not \<open>completed\<close>, its
  rating is null and its payment status is \<open>pending\<close>; when its status is
  \<open>completed\<close>, its rating is a number in \<open>[3.5, 5.0]\<close> and its payment status is
  \<open>paid\<close>.
\<close>

theorem seeded_rating_and_payment:
  assumes "fst (initialize_database g d)"
  shows "\<forall>r\<in>set (rides (snd (initialize_database g d))).
     (ride.status r \<noteq> ''completed'' \<longrightarrow>
        ride.rating r = None \<and> ride.payment_status r = ''pending'') \<and>
     (ride.status r = ''completed'' \<longrightarrow>
        (\<exists>x. ride.rating r = Some x \<and> 7/2 \<le> x \<and> x \<le> 5) \<and>
        ride.payment_status r = ''paid'')"
proof -
  have "\<forall>r\<in>set (fst (fresh_rides g)).
     (ride.status r \<noteq> ''completed'' \<longrightarrow>
        ride.rating r = None \<and> ride.payment_status r = ''pending'') \<and>
     (ride.status r = ''completed'' \<longrightarrow>
        (\<exists>x. ride.rating r = Some x \<and> 7/2 \<le> x \<and> x \<le> 5) \<and>
        ride.payment_status r = ''paid'')"
  proof (rule fresh_rides_all)
    fix i g'
    show "(ride.status (fst (gen_ride i g')) \<noteq> ''completed'' \<longrightarrow>
        ride.rating (fst (gen_ride i g')) = None \<and>
        ride.payment_status (fst (gen_ride i g')) = ''pending'') \<and>
     (ride.status (fst (gen_ride i g')) = ''completed'' \<longrightarrow>
        (\<exists>x. ride.rating (fst (gen_ride i g')) = Some x \<and> 7/2 \<le> x \<and> x \<le> 5) \<and>
        ride.payment_status (fst (gen_ride i g')) = ''paid'')"
      using gen_ride_completed[of i g'] gen_ride_not_completed[of i g'] by blast
  qed
  then show ?thesis by (simp only: seeded_rides[OF assms])
qed

theorem seeded_rating_and_payment_witness:
  "fst (initialize_database (tape_const 0) empty_db) \<and>
   hd (rides (snd (initialize_database (tape_const 0) empty_db)))
     \<in> set (rides (snd (initialize_database (tape_const 0) empty_db))) \<and>
   ride.status (hd (rides (snd (initialize_database (tape_const 0) empty_db)))) = ''completed'' \<and>
   ride.payment_status (hd (rides (snd (initialize_database (tape_const 0) empty_db)))) = ''paid'' \<and>
   (case ride.rating (hd (rides (snd (initialize_database (tape_const 0) empty_db)))) of
      Some x \<Rightarrow> 7/2 \<le> x \<and> x \<le> 5 | None \<Rightarrow> False) \<and>
   fst (initialize_database (tape_const 2) empty_db) \<and>
   hd (rides (snd (initialize_database (tape_const 2) empty_db)))
     \<in> set (rides (snd (initialize_database (tape_const 2) empty_db))) \<and>
   ride.status (hd (rides (snd (initialize_database (tape_const 2) empty_db)))) = ''cancelled'' \<and>
   ride.payment_status (hd (rides (snd (initialize_database (tape_const 2) empty_db)))) = ''pending'' \<and>
   ride.rating (hd (rides (snd (initialize_database (tape_const 2) empty_db)))) = None"
proof -
  let ?s0 = "initialize_database (tape_const 0) empty_db"
  let ?s1 = "initialize_database (tape_const 2) empty_db"
  have a0: "fst ?s0" and a1: "fst ?s1"
    by (simp_all add: initialize_database_reachable empty_db_def)
  have b0: "hd (rides (snd ?s0)) \<in> set (rides (snd ?s0))"
    by (simp add: seeded_rides[OF a0] hd_fresh_rides_mem)
  have b1: "hd (rides (snd ?s1)) \<in> set (rides (snd ?s1))"
    by (simp add: seeded_rides[OF a1] hd_fresh_rides_mem)
  have c0: "ride.status (hd (rides (snd ?s0))) = ''completed''"
    by (simp add: hd_seeded_status statuses_def)
  have c1: "ride.status (hd (rides (snd ?s1))) = ''cancelled''"
    by (simp add: hd_seeded_status statuses_def)
  have n1: "ride.status (hd (rides (snd ?s1))) \<noteq> ''completed''"
    by (simp add: c1)
  from seeded_rating_and_payment[OF a0] b0 c0
  have r0: "(\<exists>x. ride.rating (hd (rides (snd ?s0))) = Some x \<and> 7/2 \<le> x \<and> x \<le> 5) \<and>
      ride.payment_status (hd (rides (snd ?s0))) = ''paid''"
    by blast
  from seeded_rating_and_payment[OF a1] b1 n1
  have r1: "ride.rating (hd (rides (snd ?s1))) = None \<and>
      ride.payment_status (hd (rides (snd ?s1))) = ''pending''"
    by blast
  from r0 have k0: "(case ride.rating (hd (rides (snd ?s0))) of
      Some x \<Rightarrow> 7/2 \<le> x \<and> x \<le> 5 | None \<Rightarrow> False)"
    by auto
  show ?thesis using a0 a1 b0 b1 c0 c1 r0 r1 k0 by blast
qed

lemma py_sum_Nil: "py_sum [] = 0"
  by (simp add: py_sum_def)

text \<open>
  C3. \<open>get_dashboard_metrics\<close> returns the number of rides, the number of drivers whose
  status is \<open>available\<close>, the sum of \<open>total_fare\<close> over the completed rides (0 when
  there is none) and the mean of the ratings that are present, rounded to two decimals
  (0 when there is none). No run divides by zero, and on an empty dataset the result is
  four zeros, returned by the \<open>try\<close> block itself.
\<close>

theorem dashboard_metrics_correct:
  "(reachable d \<longrightarrow>
      dashboard_metrics_try d = Inr (get_dashboard_metrics d) \<and>
      metrics.total_rides (get_dashboard_metrics d) = length (rides d) \<and>
      metrics.active_drivers (get_dashboard_metrics d) =
        length (filter (\<lambda>x. driver.status x = ''available'') (drivers d)) \<and>
      metrics.total_revenue (get_dashboard_metrics d) =
        py_sum (map ride.total_fare (filter (\<lambda>r. ride.status r = ''completed'') (rides d))) \<and>
      metrics.avg_rating (get_dashboard_metrics d) =
        (if List.map_filter ride.rating (rides d) = [] then 0
         else py_round (rnd64 (py_sum (List.map_filter ride.rating (rides d)) /
                               of_nat (length (List.map_filter ride.rating (rides d))))) 2)) \<and>
   dashboard_metrics_try d \<noteq> Inl ZeroDivisionError \<and>
   (rides d = [] \<and> drivers d = [] \<longrightarrow>
      get_dashboard_metrics d =
        \<lparr>metrics.total_rides = 0, metrics.active_drivers = 0,
         metrics.total_revenue = 0, metrics.avg_rating = 0\<rparr> \<and>
      (reachable d \<longrightarrow> dashboard_metrics_try d = Inr (get_dashboard_metrics d)))"
proof -
  have mf: "List.map_filter ride.rating (rides d) =
      map (\<lambda>r. the (ride.rating r)) (filter (\<lambda>r. ride.rating r \<noteq> None) (rides d))"
    by (simp add: List.map_filter_def comp_def)
  have up: "reachable d \<Longrightarrow> dashboard_metrics_try d =
      Inr \<lparr>metrics.total_rides = length (rides d),
           metrics.active_drivers =
             length (filter (\<lambda>x. driver.status x = ''available'') (drivers d)),
           metrics.total_revenue =
             py_sum (map ride.total_fare (filter (\<lambda>r. ride.status r = ''completed'') (rides d))),
           metrics.avg_rating =
             (if List.map_filter ride.rating (rides d) = [] then 0
              else py_round (rnd64 (py_sum (List.map_filter ride.rating (rides d)) /
                               of_nat (length (List.map_filter ride.rating (rides d))))) 2)\<rparr>"
    by (simp add: dashboard_metrics_try_def bindE_def count_documents_def find_def storage_def
        truediv_def Let_def mf)
  have down: "\<not> reachable d \<Longrightarrow> dashboard_metrics_try d = Inl ServerSelectionTimeoutError"
    by (simp add: dashboard_metrics_try_def bindE_def count_documents_def storage_def)
  have nz: "dashboard_metrics_try d \<noteq> Inl ZeroDivisionError"
    by (cases "reachable d") (simp_all add: up down)
  have e: "rides d = [] \<and> drivers d = [] \<longrightarrow> get_dashboard_metrics d =
        \<lparr>metrics.total_rides = 0, metrics.active_drivers = 0,
         metrics.total_revenue = 0, metrics.avg_rating = 0\<rparr>"
    by (cases "reachable d")
       (simp_all add: get_dashboard_metrics_def up down py_sum_Nil)
  show ?thesis using nz e
    by (simp add: get_dashboard_metrics_def up)
qed

theorem dashboard_metrics_correct_witness:
  "reachable (sample_db [sample_driver ''DRV001'' ''available'' 100,
                         sample_driver ''DRV002'' ''busy'' 50]
                        [sample_ride ''completed'' (21/2) (Some (9/2)),
                         sample_ride ''pending'' 12 None,
                         sample_ride ''completed'' (15/2) (Some 4)]) \<and>
   get_dashboard_metrics
     (sample_db [sample_driver ''DRV001'' ''available'' 100,
                 sample_driver ''DRV002'' ''busy'' 50]
                [sample_ride ''completed'' (21/2) (Some (9/2)),
                 sample_ride ''pending'' 12 None,
                 sample_ride ''completed'' (15/2) (Some 4)]) =
     \<lparr>metrics.total_rides = 3, metrics.active_drivers = 1,
      metrics.total_revenue = 18, metrics.avg_rating = 17/4\<rparr> \<and>
   rides empty_db = [] \<and> drivers empty_db = [] \<and> reachable empty_db \<and>
   dashboard_metrics_try empty_db =
     Inr \<lparr>metrics.total_rides = 0, metrics.active_drivers = 0,
          metrics.total_revenue = 0, metrics.avg_rating = 0\<rparr>"
proof -
  let ?d = "sample_db [sample_driver ''DRV001'' ''available'' 100,
                       sample_driver ''DRV002'' ''busy'' 50]
                      [sample_ride ''completed'' (21/2) (Some (9/2)),
                       sample_ride ''pending'' 12 None,
                       sample_ride ''completed'' (15/2) (Some 4)]"
  have r: "reachable ?d" by (simp add: sample_db_def)
  have n: "length (rides ?d) = 3"
    "length (filter (\<lambda>x. driver.status x = ''available'') (drivers ?d)) = 1"
    by (simp_all add: sample_db_def sample_driver_def)
  have rev: "py_sum (map ride.total_fare
        (filter (\<lambda>r. ride.status r = ''completed'') (rides ?d))) = 18"
    by code_simp
  have avg: "(if List.map_filter ride.rating (rides ?d) = [] then 0
         else py_round (rnd64 (py_sum (List.map_filter ride.rating (rides ?d)) /
                               of_nat (length (List.map_filter ride.rating (rides ?d))))) 2)
      = 17/4"
    by code_simp
  have m: "get_dashboard_metrics ?d =
     \<lparr>metrics.total_rides = 3, metrics.active_drivers = 1,
      metrics.total_revenue = 18, metrics.avg_rating = 17/4\<rparr>"
    using dashboard_metrics_correct[of ?d] r n rev avg
    by (intro metrics.equality) simp_all
  have e: "rides empty_db = []" "drivers empty_db = []" "reachable empty_db"
    by (simp_all add: empty_db_def)
  have z: "dashboard_metrics_try empty_db =
     Inr \<lparr>metrics.total_rides = 0, metrics.active_drivers = 0,
          metrics.total_revenue = 0, metrics.avg_rating = 0\<rparr>"
    using dashboard_metrics_correct[of empty_db] e by simp
  show ?thesis using r m e z by simp
qed

lemma add_new_ride_CreatedD:
  assumes "add_new_ride ui g d = (Created r, d')"
  shows "reachable d" and "filter (\<lambda>x. driver.status x = ''available'') (drivers d) \<noteq> []"
    and "riders d \<noteq> []" and "submitted ui"
    and "r = new_ride ui (py_round (fadd (fmul (distance ui) (3/2)) 3) 2)
              (py_round (fmul (py_round (fadd (fmul (distance ui) (3/2)) 3) 2) (surge ui)) 2)
              (int (length (rides d)) + 1) (fst (datetime_now g))"
    and "d' = d\<lparr>rides := rides d @ [r]\<rparr>"
proof -
  show ok: "reachable d" "filter (\<lambda>x. driver.status x = ''available'') (drivers d) \<noteq> []"
    "riders d \<noteq> []" "submitted ui"
    using add_new_ride_Created_iff[of ui g d] assms by blast+
  from add_new_ride_success[OF ok, of g] assms
  show "r = new_ride ui (py_round (fadd (fmul (distance ui) (3/2)) 3) 2)
              (py_round (fmul (py_round (fadd (fmul (distance ui) (3/2)) 3) 2) (surge ui)) 2)
              (int (length (rides d)) + 1) (fst (datetime_now g))"
    and "d' = d\<lparr>rides := rides d @ [r]\<rparr>"
    by (auto simp: Let_def)
qed

lemma sample_created:
  "\<exists>r d'. add_new_ride (sample_form km sm) g
       (sample_db (sample_driver ''DRV001'' ''available'' e # ds) rs) = (Created r, d')"
  by (simp add: sample_success Let_def)

lemma length_str_nat: "0 < k \<Longrightarrow> n < 10 ^ k \<Longrightarrow> length (str_nat n) \<le> k"
proof (induction k arbitrary: n)
  case 0
  then show ?case by simp
next
  case (Suc k)
  show ?case
  proof (cases "n < 10")
    case True
    then show ?thesis by (simp add: str_nat.simps[of n])
  next
    case False
    then have k: "0 < k" using Suc.prems by (cases k) auto
    have "n div 10 < 10 ^ k" using Suc.prems by (simp add: less_mult_imp_div_less mult.commute)
    from Suc.IH[OF k this] False show ?thesis by (simp add: str_nat.simps[of n])
  qed
qed

lemma length_str_nat_pos: "0 < length (str_nat n)"
  by (simp add: str_nat.simps[of n])

lemma length_ride_id:
  assumes "n < 9999"
  shows "length (''RIDE'' @ zfill 4 (py_str (int n + 1))) = 8"
proof -
  have "py_str (int n + 1) = str_nat (Suc n)"
    by (simp add: py_str_def nat_add_distrib)
  moreover have "length (str_nat (Suc n)) \<le> 4"
    using assms by (intro length_str_nat) auto
  ultimately show ?thesis by (simp add: zfill_def)
qed

text \<open>
  C4. The ride of a successful creation has as \<open>ride_id\<close> the text \<open>RIDE\<close> followed by
  the number of existing rides plus one, padded with zeros to four digits (eight characters
  in all while there are fewer than 9999 rides); its status and payment status are
  \<open>pending\<close>; its start time, end time, duration and rating are null.
\<close>

theorem created_ride_is_pending:
  assumes "add_new_ride ui g d = (Created r, d')"
  shows "ride.ride_id r = ''RIDE'' @ zfill 4 (py_str (int (length (rides d)) + 1)) \<and>
         (length (rides d) < 9999 \<longrightarrow> length (ride.ride_id r) = 8) \<and>
         ride.status r = ''pending'' \<and> ride.start_time r = None \<and> ride.end_time r = None \<and>
         ride.duration_minutes r = None \<and> ride.rating r = None \<and>
         ride.payment_status r = ''pending''"
proof -
  have r: "r = new_ride ui (py_round (fadd (fmul (distance ui) (3/2)) 3) 2)
              (py_round (fmul (py_round (fadd (fmul (distance ui) (3/2)) 3) 2) (surge ui)) 2)
              (int (length (rides d)) + 1) (fst (datetime_now g))"
    by (rule add_new_ride_CreatedD(5)[OF assms])
  have i: "ride.ride_id r = ''RIDE'' @ zfill 4 (py_str (int (length (rides d)) + 1))"
    by (subst r) (simp add: new_ride_def)
  have l: "length (rides d) < 9999 \<longrightarrow> length (ride.ride_id r) = 8"
    unfolding i using length_ride_id[of "length (rides d)"] by blast
  have p: "ride.status r = ''pending'' \<and> ride.start_time r = None \<and> ride.end_time r = None \<and>
         ride.duration_minutes r = None \<and> ride.rating r = None \<and>
         ride.payment_status r = ''pending''"
    by (subst r)+ (simp add: new_ride_def)
  from i l p show ?thesis by blast
qed

theorem created_ride_is_pending_witness:
  "(case add_new_ride (sample_form 5 1) (tape_const 0)
           (sample_db [sample_driver ''DRV001'' ''available'' 100]
              [sample_ride ''completed'' 12 None, sample_ride ''pending'' 12 None]) of
      (Created r, d') \<Rightarrow>
         ride.ride_id r = ''RIDE0003'' \<and>
         ride.status r = ''pending'' \<and> ride.start_time r = None \<and> ride.end_time r = None \<and>
         ride.duration_minutes r = None \<and> ride.rating r = None \<and>
         ride.payment_status r = ''pending''
    | _ \<Rightarrow> False)"
proof -
  let ?d = "sample_db [sample_driver ''DRV001'' ''available'' 100]
              [sample_ride ''completed'' 12 None, sample_ride ''pending'' 12 None]"
  obtain r d' where c: "add_new_ride (sample_form 5 1) (tape_const 0) ?d = (Created r, d')"
    using sample_created by blast
  have i: "''RIDE'' @ zfill 4 (py_str (int (length (rides ?d)) + 1)) = ''RIDE0003''"
    by code_simp
  from created_ride_is_pending[OF c]
  have k: "ride.ride_id r = ''RIDE'' @ zfill 4 (py_str (int (length (rides ?d)) + 1))"
    and rest: "ride.status r = ''pending'' \<and> ride.start_time r = None \<and>
         ride.end_time r = None \<and> ride.duration_minutes r = None \<and> ride.rating r = None \<and>
         ride.payment_status r = ''pending''"
    by blast+
  from k have "ride.ride_id r = ''RIDE0003''" by (simp only: i)
  with rest show ?thesis by (simp only: c prod.case outcome.case)
qed

text \<open>
  C5. The ride of a successful creation has
  \<open>base_fare = round(distance_km * 1.5 + 3.0, 2)\<close> and
  \<open>total_fare = round(base_fare * surge_multiplier, 2)\<close>; for a distance of 5.0 and a
  surge multiplier of 1.0 both are 10.5.
\<close>

theorem created_ride_fares:
  assumes "add_new_ride ui g d = (Created r, d')"
  shows "ride.distance_km r = distance ui \<and> ride.surge_multiplier r = surge ui \<and>
         ride.base_fare r = py_round (fadd (fmul (ride.distance_km r) (3/2)) 3) 2 \<and>
         ride.total_fare r = py_round (fmul (ride.base_fare r) (ride.surge_multiplier r)) 2 \<and>
         (distance ui = 5 \<and> surge ui = 1 \<longrightarrow>
            ride.base_fare r = 21/2 \<and> ride.total_fare r = 21/2)"
proof -
  have b: "py_round (fadd (fmul 5 (3/2)) 3) 2 = 21/2"
    by code_simp
  have t: "py_round (fmul (21/2) 1) 2 = 21/2"
    by code_simp
  show ?thesis
    by (auto simp add: add_new_ride_CreatedD(5)[OF assms] new_ride_def b t)
qed

theorem created_ride_fares_witness:
  "(case add_new_ride (sample_form 5 1) (tape_const 0)
           (sample_db [sample_driver ''DRV001'' ''available'' 100] []) of
      (Created r, d') \<Rightarrow>
         ride.distance_km r = 5 \<and> ride.surge_multiplier r = 1 \<and>
         ride.base_fare r = 21/2 \<and> ride.total_fare r = 21/2
    | _ \<Rightarrow> False)"
proof -
  let ?d = "sample_db [sample_driver ''DRV001'' ''available'' 100] []"
  obtain r d' where c: "add_new_ride (sample_form 5 1) (tape_const 0) ?d = (Created r, d')"
    using sample_created by blast
  have f: "distance (sample_form 5 1) = 5" "surge (sample_form 5 1) = 1"
    by (simp_all add: sample_form_def)
  have "ride.distance_km r = 5 \<and> ride.surge_multiplier r = 1 \<and>
         ride.base_fare r = 21/2 \<and> ride.total_fare r = 21/2"
    using created_ride_fares[OF c] unfolding f by blast
  then show ?thesis by (simp only: c prod.case outcome.case)
qed

text \<open>
  C6. When every driver in the store is \<open>busy\<close> or \<open>offline\<close>, the page creates no ride
  and leaves the store as it was; with a reachable store that holds drivers and riders it
  ends with the warning that no driver is available.
\<close>

theorem no_available_driver_refuses:
  assumes "\<forall>x\<in>set (drivers d). driver.status x = ''busy'' \<or> driver.status x = ''offline''"
  shows "snd (add_new_ride ui g d) = d \<and>
         (\<forall>r. fst (add_new_ride ui g d) \<noteq> Created r) \<and>
         (reachable d \<and> drivers d \<noteq> [] \<and> riders d \<noteq> [] \<longrightarrow>
            fst (add_new_ride ui g d) = NoAvailableDrivers)"
proof -
  have "\<forall>x\<in>set (drivers d). driver.status x \<noteq> ''available''"
    using assms by auto
  then have none: "filter (\<lambda>x. driver.status x = ''available'') (drivers d) = []"
    by (simp add: filter_empty_conv)
  have no: "\<forall>r. fst (add_new_ride ui g d) \<noteq> Created r"
  proof (intro allI notI)
    fix r
    assume "fst (add_new_ride ui g d) = Created r"
    then have "\<exists>r d'. add_new_ride ui g d = (Created r, d')"
      by (metis prod.collapse)
    then show False using add_new_ride_Created_iff[of ui g d] none by simp
  qed
  have w: "reachable d \<and> drivers d \<noteq> [] \<and> riders d \<noteq> [] \<longrightarrow>
            fst (add_new_ride ui g d) = NoAvailableDrivers"
    using none
    by (simp add: add_new_ride_def get_all_drivers_def find_def storage_def Let_def)
  from no add_new_ride_unchanged[OF no] w show ?thesis by blast
qed

theorem no_available_driver_refuses_witness:
  "fst (add_new_ride (sample_form 5 1) (tape_const 0)
          (sample_db [sample_driver ''DRV001'' ''busy'' 100,
                      sample_driver ''DRV002'' ''offline'' 50] [])) = NoAvailableDrivers \<and>
   snd (add_new_ride (sample_form 5 1) (tape_const 0)
          (sample_db [sample_driver ''DRV001'' ''busy'' 100,
                      sample_driver ''DRV002'' ''offline'' 50] [])) =
     sample_db [sample_driver ''DRV001'' ''busy'' 100,
                sample_driver ''DRV002'' ''offline'' 50] []"
proof -
  let ?d = "sample_db [sample_driver ''DRV001'' ''busy'' 100,
                       sample_driver ''DRV002'' ''offline'' 50] []"
  have h: "\<forall>x\<in>set (drivers ?d). driver.status x = ''busy'' \<or> driver.status x = ''offline''"
    by (simp add: sample_db_def sample_driver_def)
  have k: "reachable ?d \<and> drivers ?d \<noteq> [] \<and> riders ?d \<noteq> []"
    by (simp add: sample_db_def)
  from no_available_driver_refuses[OF h, of "sample_form 5 1" "tape_const 0"] k
  show ?thesis by blast
qed

text \<open>
  C10. A successful creation appends exactly the new ride to \<open>rides\<close> and leaves
  \<open>drivers\<close>, \<open>riders\<close>, \<open>vehicles\<close> and \<open>surge_pricing\<close> as they were; the driver
  chosen in the form, one of the available ones, is still \<open>available\<close> afterwards.
\<close>

theorem creation_frame:
  assumes "add_new_ride ui g d = (Created r, d')"
  shows "rides d' = rides d @ [r] \<and> drivers d' = drivers d \<and> riders d' = riders d \<and>
         vehicles d' = vehicles d \<and> surge_pricing d' = surge_pricing d \<and>
         (form_ok d ui \<longrightarrow>
            (\<exists>x\<in>set (drivers d'). driver.driver_id x = ride.driver_id r \<and>
                                     driver.status x = ''available''))"
proof -
  have d': "d' = d\<lparr>rides := rides d @ [r]\<rparr>"
    by (rule add_new_ride_CreatedD(6)[OF assms])
  have id: "ride.driver_id r = driver ui"
    by (simp add: add_new_ride_CreatedD(5)[OF assms] new_ride_def)
  have "form_ok d ui \<longrightarrow>
      (\<exists>x\<in>set (drivers d). driver.driver_id x = driver ui \<and> driver.status x = ''available'')"
    by (auto simp: form_ok_def)
  then show ?thesis by (simp add: d' id)
qed

theorem creation_frame_witness:
  "form_ok (sample_db [sample_driver ''DRV001'' ''available'' 100] []) (sample_form 5 1) \<and>
   (case add_new_ride (sample_form 5 1) (tape_const 0)
           (sample_db [sample_driver ''DRV001'' ''available'' 100] []) of
      (Created r, d') \<Rightarrow>
         rides d' = [r] \<and> drivers d' = [sample_driver ''DRV001'' ''available'' 100] \<and>
         riders d' = [sample_rider] \<and> vehicles d' = [] \<and> surge_pricing d' = [] \<and>
         ride.driver_id r = ''DRV001''
    | _ \<Rightarrow> False)"
proof -
  let ?d = "sample_db [sample_driver ''DRV001'' ''available'' 100] []"
  obtain r d' where c: "add_new_ride (sample_form 5 1) (tape_const 0) ?d = (Created r, d')"
    using sample_created by blast
  have f: "form_ok ?d (sample_form 5 1)"
    by (simp add: form_ok_def sample_db_def sample_driver_def sample_form_def sample_rider_def)
  have s: "rides ?d = []" "drivers ?d = [sample_driver ''DRV001'' ''available'' 100]"
    "riders ?d = [sample_rider]" "vehicles ?d = []" "surge_pricing ?d = []"
    by (simp_all add: sample_db_def)
  have i: "driver.driver_id (sample_driver ''DRV001'' ''available'' 100) = ''DRV001''"
    by (simp add: sample_driver_def)
  from creation_frame[OF c] f
  have "rides d' = [r] \<and> drivers d' = [sample_driver ''DRV001'' ''available'' 100] \<and>
         riders d' = [sample_rider] \<and> vehicles d' = [] \<and> surge_pricing d' = [] \<and>
         ride.driver_id r = ''DRV001''"
    unfolding s using i by auto
  with f show ?thesis by (simp only: c prod.case outcome.case)
qed

lemma length_fresh:
  "length (fst (fresh_drivers g)) = 12" "length (fst (fresh_riders g)) = 12"
  "length (fst (fresh_vehicles g)) = 12" "length (fst (fresh_surge_data g)) = 12"
proof -
  have n: "length driver_names = 12" "length rider_names = 12" "length vehicle_data = 12"
    by (simp_all add: driver_names_def rider_names_def vehicle_data_def)
  show "length (fst (fresh_drivers g)) = 12" "length (fst (fresh_riders g)) = 12"
    "length (fst (fresh_vehicles g)) = 12" "length (fst (fresh_surge_data g)) = 12"
    by (simp_all only: fresh_drivers_def fresh_riders_def fresh_vehicles_def
        fresh_surge_data_def length_for_each length_enumerate n length_upt)
qed

text \<open>
  C7. After two successful seeds in a row each collection holds exactly what the second
  seed generated: 12 drivers, 12 riders, 12 vehicles, 15 rides and 12 surge zones, and no
  document of the first seed or of the store before it.
\<close>

theorem reseed_replaces:
  assumes "initialize_database g1 d = (True, d1)" and "initialize_database g2 d1 = (True, d2)"
  shows "length (drivers d2) = 12 \<and> length (riders d2) = 12 \<and> length (vehicles d2) = 12 \<and>
         length (rides d2) = 15 \<and> length (surge_pricing d2) = 12 \<and>
         drivers d2 = fst (fresh_drivers g2) \<and> riders d2 = fst (fresh_riders g2) \<and>
         vehicles d2 = fst (fresh_vehicles g2) \<and> rides d2 = fst (fresh_rides g2) \<and>
         surge_pricing d2 = fst (fresh_surge_data g2)"
proof -
  have "reachable d1"
    using assms(2) initialize_database_unreachable[of d1 g2] by auto
  from initialize_database_reachable[OF this, of g2] assms(2)
  have "d2 = d1\<lparr>drivers := fst (fresh_drivers g2), riders := fst (fresh_riders g2),
                rides := fst (fresh_rides g2), surge_pricing := fst (fresh_surge_data g2),
                vehicles := fst (fresh_vehicles g2)\<rparr>"
    by simp
  then show ?thesis by (simp add: length_fresh length_fresh_rides)
qed

theorem reseed_replaces_witness:
  "initialize_database (tape_const 0)
       (sample_db [sample_driver ''DRV001'' ''busy'' 100] [sample_ride ''pending'' 12 None]) =
     (True, snd (initialize_database (tape_const 0)
       (sample_db [sample_driver ''DRV001'' ''busy'' 100] [sample_ride ''pending'' 12 None]))) \<and>
   fst (initialize_database (tape_const 2)
     (snd (initialize_database (tape_const 0)
       (sample_db [sample_driver ''DRV001'' ''busy'' 100] [sample_ride ''pending'' 12 None])))) \<and>
   length (drivers (snd (initialize_database (tape_const 2)
     (snd (initialize_database (tape_const 0)
       (sample_db [sample_driver ''DRV001'' ''busy'' 100] [sample_ride ''pending'' 12 None])))))) = 12 \<and>
   length (rides (snd (initialize_database (tape_const 2)
     (snd (initialize_database (tape_const 0)
       (sample_db [sample_driver ''DRV001'' ''busy'' 100] [sample_ride ''pending'' 12 None])))))) = 15"
proof -
  let ?d = "sample_db [sample_driver ''DRV001'' ''busy'' 100] [sample_ride ''pending'' 12 None]"
  let ?d1 = "snd (initialize_database (tape_const 0) ?d)"
  let ?d2 = "snd (initialize_database (tape_const 2) ?d1)"
  have r: "reachable ?d" by (simp add: sample_db_def)
  have a: "initialize_database (tape_const 0) ?d = (True, ?d1)"
    by (simp add: initialize_database_reachable[OF r])
  have r1: "reachable ?d1"
    by (simp add: initialize_database_reachable[OF r] r)
  have b: "initialize_database (tape_const 2) ?d1 = (True, ?d2)"
    by (simp add: initialize_database_reachable[OF r1])
  have f: "fst (initialize_database (tape_const 2) ?d1)"
    by (simp add: initialize_database_reachable[OF r1])
  from reseed_replaces[OF a b]
  have "length (drivers ?d2) = 12" and "length (rides ?d2) = 15"
    by blast+
  with a f show ?thesis by blast
qed

text \<open>
  C8. The top performers are \<open>min 5 n\<close> of the \<open>n\<close> drivers, in descending order of
  \<open>earnings_today\<close>; they are the first five of an arrangement of all drivers that is
  descending and in which drivers with equal earnings keep their original order.
\<close>

theorem top_performers_sorted_stable:
  assumes "reachable d"
  shows "length (top_performers d) = min 5 (length (drivers d)) \<and>
         sorted_wrt (\<lambda>a b. driver.earnings_today b \<le> driver.earnings_today a)
           (top_performers d) \<and>
         (\<exists>rest. mset (top_performers d @ rest) = mset (drivers d) \<and>
            (\<forall>x\<in>set (top_performers d). \<forall>y\<in>set rest.
               driver.earnings_today y \<le> driver.earnings_today x) \<and>
            (\<forall>v. filter (\<lambda>x. driver.earnings_today x = v) (top_performers d @ rest) =
                 filter (\<lambda>x. driver.earnings_today x = v) (drivers d)))"
proof -
  define full where "full = sort_key (\<lambda>row. - driver.earnings_today row) (drivers d)"
  have top: "top_performers d = take 5 full"
    using assms
    by (simp add: top_performers_def get_all_drivers_def find_def storage_def nlargest_def
        full_def Let_def)
  have "sorted (map (\<lambda>row. - driver.earnings_today row) full)"
    unfolding full_def by (rule sorted_sort_key)
  then have s: "sorted_wrt (\<lambda>a b. driver.earnings_today b \<le> driver.earnings_today a) full"
    by (simp add: sorted_map)
  have len: "length (top_performers d) = min 5 (length (drivers d))"
    by (simp add: top full_def)
  have st: "sorted_wrt (\<lambda>a b. driver.earnings_today b \<le> driver.earnings_today a)
      (top_performers d)"
    unfolding top using s by (rule sorted_wrt_take)
  have app: "top_performers d @ drop 5 full = full"
    by (simp add: top)
  have m: "mset (top_performers d @ drop 5 full) = mset (drivers d)"
    unfolding app by (simp add: full_def)
  have dom: "\<forall>x\<in>set (top_performers d). \<forall>y\<in>set (drop 5 full).
      driver.earnings_today y \<le> driver.earnings_today x"
  proof -
    have "sorted_wrt (\<lambda>a b. driver.earnings_today b \<le> driver.earnings_today a)
        (top_performers d @ drop 5 full)"
      using s by (simp only: app)
    then show ?thesis by (simp only: sorted_wrt_append) blast
  qed
  have stab: "\<forall>v. filter (\<lambda>x. driver.earnings_today x = v) (top_performers d @ drop 5 full) =
      filter (\<lambda>x. driver.earnings_today x = v) (drivers d)"
  proof
    fix v
    have "filter (\<lambda>x. - driver.earnings_today x = - v) full =
        filter (\<lambda>x. - driver.earnings_today x = - v) (drivers d)"
      unfolding full_def by (rule sort_key_stable)
    then show "filter (\<lambda>x. driver.earnings_today x = v) (top_performers d @ drop 5 full) =
        filter (\<lambda>x. driver.earnings_today x = v) (drivers d)"
      unfolding app by simp
  qed
  from len st m dom stab show ?thesis by blast
qed

theorem top_performers_sorted_stable_witness:
  "reachable (sample_db [sample_driver ''DRV001'' ''available'' 100, sample_driver ''DRV002'' ''busy'' 200,
                sample_driver ''DRV003'' ''offline'' 100, sample_driver ''DRV004'' ''busy'' 200,
                sample_driver ''DRV005'' ''available'' 50, sample_driver ''DRV006'' ''busy'' 100] []) \<and>
   map driver.driver_id (top_performers (sample_db [sample_driver ''DRV001'' ''available'' 100, sample_driver ''DRV002'' ''busy'' 200,
                sample_driver ''DRV003'' ''offline'' 100, sample_driver ''DRV004'' ''busy'' 200,
                sample_driver ''DRV005'' ''available'' 50, sample_driver ''DRV006'' ''busy'' 100] [])) =
     [''DRV002'', ''DRV004'', ''DRV001'', ''DRV003'', ''DRV006''] \<and>
   length (top_performers (sample_db [sample_driver ''DRV001'' ''available'' 100, sample_driver ''DRV002'' ''busy'' 200,
                sample_driver ''DRV003'' ''offline'' 100, sample_driver ''DRV004'' ''busy'' 200,
                sample_driver ''DRV005'' ''available'' 50, sample_driver ''DRV006'' ''busy'' 100] [])) = min 5 (length (drivers (sample_db [sample_driver ''DRV001'' ''available'' 100, sample_driver ''DRV002'' ''busy'' 200,
                sample_driver ''DRV003'' ''offline'' 100, sample_driver ''DRV004'' ''busy'' 200,
                sample_driver ''DRV005'' ''available'' 50, sample_driver ''DRV006'' ''busy'' 100] []))) \<and>
   sorted_wrt (\<lambda>a b. driver.earnings_today b \<le> driver.earnings_today a)
     (top_performers (sample_db [sample_driver ''DRV001'' ''available'' 100, sample_driver ''DRV002'' ''busy'' 200,
                sample_driver ''DRV003'' ''offline'' 100, sample_driver ''DRV004'' ''busy'' 200,
                sample_driver ''DRV005'' ''available'' 50, sample_driver ''DRV006'' ''busy'' 100] []))"
proof -
  let ?d = "sample_db [sample_driver ''DRV001'' ''available'' 100, sample_driver ''DRV002'' ''busy'' 200,
                sample_driver ''DRV003'' ''offline'' 100, sample_driver ''DRV004'' ''busy'' 200,
                sample_driver ''DRV005'' ''available'' 50, sample_driver ''DRV006'' ''busy'' 100] []"
  have r: "reachable ?d" by (simp add: sample_db_def)
  have ids: "map driver.driver_id (top_performers ?d) =
     [''DRV002'', ''DRV004'', ''DRV001'', ''DRV003'', ''DRV006'']"
    by code_simp
  from top_performers_sorted_stable[OF r]
  have "length (top_performers ?d) = min 5 (length (drivers ?d))"
    and "sorted_wrt (\<lambda>a b. driver.earnings_today b \<le> driver.earnings_today a)
           (top_performers ?d)"
    by blast+
  with r ids show ?thesis by blast
qed

end
